theory Spec2Isabelle
  imports Complex_Main "HOL-Library.Char_ord" "HOL-Library.List_Lexorder"
    "HOL-Library.Product_Lexorder"
begin

section \<open>Python primitives used by the analytics modules\<close>

text \<open>
  Conventions of the embedding.
  \<^item> A Python \<open>float\<close> is a \<open>pyfloat\<close>: a finite binary64 number, given by its real
    value, one of the two infinities, or \<open>NaN\<close>. The two zeros are one value: they
    compare equal in Python.
  \<^item> Float arithmetic is the arithmetic of the machine: the exact result of every
    single operation is rounded to the nearest binary64 number, a tie to the even
    significand, and a result beyond the largest finite number is an infinity
    (\<open>rnd\<close>). A decimal literal of the source such as \<open>0.4\<close> is the binary64 number
    nearest to it, \<open>rnd (4 / 10)\<close>.
  \<^item> A cell of a numeric DataFrame column is a \<open>pyfloat\<close>; \<open>NaN\<close> is the marker pandas
    uses for a missing number. Every ordered comparison with \<open>NaN\<close> is false.
  \<^item> A Python \<open>int\<close> is an \<open>int\<close>.
  \<^item> An exception is a value of \<open>error\<close>; a function that can raise returns
    \<open>error + 'a\<close> with \<open>Inl\<close> for the exception.
  \<^item> \<open>date.today()\<close> is a parameter \<open>today\<close> of the functions that read it.
\<close>

datatype error =
    ValueError
  | TypeError
  | KeyError
  | ZeroDivisionError
  | OverflowError
  | AttributeError
  | OpenBBError string
  | EmptyDataError string
  | ValidationError

datatype pyfloat = Fin real | PInf | NInf | NaN

subsection \<open>Rounding to binary64\<close>

text \<open>
  \<open>round_half_even\<close> is the integer nearest to a real, an exact tie going to the even
  neighbour.
\<close>

definition round_half_even :: "real \<Rightarrow> int" where
  "round_half_even x =
     (let f = \<lfloor>x\<rfloor>; d = x - of_int f
      in if d < 1 / 2 then f
         else if 1 / 2 < d then f + 1
         else if even f then f else f + 1)"

text \<open>
  The exponent \<open>e\<close> of a real \<open>x\<close>: \<open>2 ^ e \<le> \<bar>x\<bar> < 2 ^ (e + 1)\<close>, and \<open>-1022\<close>, the
  exponent of the subnormal numbers, for every smaller \<open>x\<close>. It is found by halving
  above 1 and by doubling, at most 1022 times, below 1.
\<close>

function expo_ge1 :: "real \<Rightarrow> int" where
  "expo_ge1 x = (if x < 2 then 0 else 1 + expo_ge1 (x / 2))"
  by pat_completeness auto
termination
proof (relation "measure (\<lambda>x. nat \<lfloor>x\<rfloor>)")
  show "wf (measure (\<lambda>x::real. nat \<lfloor>x\<rfloor>))"
    by simp
next
  fix x :: real
  assume "\<not> x < 2"
  then have "x / 2 \<le> x - 1" and "2 \<le> \<lfloor>x\<rfloor>"
    by (simp_all add: le_floor_iff)
  then have "\<lfloor>x / 2\<rfloor> \<le> \<lfloor>x - 1\<rfloor>"
    by (intro floor_mono)
  moreover have "\<lfloor>x - 1\<rfloor> = \<lfloor>x\<rfloor> - 1"
    by simp
  moreover have "2 \<le> \<lfloor>x\<rfloor>"
    using \<open>\<not> x < 2\<close> by (simp add: le_floor_iff)
  ultimately show "(x / 2, x) \<in> measure (\<lambda>x. nat \<lfloor>x\<rfloor>)"
    by simp
qed

fun expo_lt1 :: "nat \<Rightarrow> real \<Rightarrow> int" where
  "expo_lt1 0 x = 0"
| "expo_lt1 (Suc fuel) x = (if 1 \<le> x then 0 else expo_lt1 fuel (2 * x) - 1)"

definition float_exponent :: "real \<Rightarrow> int" where
  "float_exponent x = (if 1 \<le> \<bar>x\<bar> then expo_ge1 \<bar>x\<bar> else expo_lt1 1022 \<bar>x\<bar>)"

text \<open>
  A binary64 number with exponent \<open>e\<close> is an integer multiple of \<open>2 ^ (e - 52)\<close>: the
  significand has 53 bits. \<open>fl x\<close> is the multiple nearest to \<open>x\<close>.
\<close>

definition ulp :: "real \<Rightarrow> real" where
  "ulp x = 2 powi (float_exponent x - 52)"

definition fl :: "real \<Rightarrow> real" where
  "fl x = of_int (round_half_even (x / ulp x)) * ulp x"

text \<open>The largest finite number is \<open>2 ^ 1024 - 2 ^ 971\<close>; what rounds beyond it overflows.\<close>

definition rnd :: "real \<Rightarrow> pyfloat" where
  "rnd x =
     (let y = fl x
      in if 2 ^ 1024 \<le> y then PInf else if y \<le> - (2 ^ 1024) then NInf else Fin y)"

text \<open>The reals that are finite binary64 numbers.\<close>

definition is_float :: "real \<Rightarrow> bool" where
  "is_float x = (rnd x = Fin x)"

subsection \<open>Float arithmetic and comparisons\<close>

fun f_neg :: "pyfloat \<Rightarrow> pyfloat" where
  "f_neg (Fin x) = Fin (- x)"
| "f_neg PInf = NInf"
| "f_neg NInf = PInf"
| "f_neg NaN = NaN"

fun f_abs :: "pyfloat \<Rightarrow> pyfloat" where
  "f_abs (Fin x) = Fin \<bar>x\<bar>"
| "f_abs PInf = PInf"
| "f_abs NInf = PInf"
| "f_abs NaN = NaN"

fun f_sign :: "pyfloat \<Rightarrow> int" where
  "f_sign (Fin x) = (if 0 < x then 1 else if x < 0 then - 1 else 0)"
| "f_sign PInf = 1"
| "f_sign NInf = - 1"
| "f_sign NaN = 0"

text \<open>The infinity of a sign; the sign 0 stands for an undefined result.\<close>

definition signed_inf :: "int \<Rightarrow> pyfloat" where
  "signed_inf s = (if 0 < s then PInf else if s < 0 then NInf else NaN)"

fun f_add :: "pyfloat \<Rightarrow> pyfloat \<Rightarrow> pyfloat" where
  "f_add (Fin x) (Fin y) = rnd (x + y)"
| "f_add NaN b = NaN"
| "f_add a NaN = NaN"
| "f_add PInf NInf = NaN"
| "f_add NInf PInf = NaN"
| "f_add PInf b = PInf"
| "f_add NInf b = NInf"
| "f_add a PInf = PInf"
| "f_add a NInf = NInf"

definition f_sub :: "pyfloat \<Rightarrow> pyfloat \<Rightarrow> pyfloat" where
  "f_sub a b = f_add a (f_neg b)"

fun f_mul :: "pyfloat \<Rightarrow> pyfloat \<Rightarrow> pyfloat" where
  "f_mul (Fin x) (Fin y) = rnd (x * y)"
| "f_mul NaN b = NaN"
| "f_mul a NaN = NaN"
| "f_mul a b = signed_inf (f_sign a * f_sign b)"

text \<open>
  Division of a float column by a float (numpy): a zero divisor does not raise, the
  quotient is an infinity, or \<open>NaN\<close> for \<open>0 / 0\<close>. The zero divisor is taken to be \<open>+0.0\<close>.
\<close>

fun f_div :: "pyfloat \<Rightarrow> pyfloat \<Rightarrow> pyfloat" where
  "f_div (Fin x) (Fin y) = (if y = 0 then signed_inf (f_sign (Fin x)) else rnd (x / y))"
| "f_div NaN b = NaN"
| "f_div a NaN = NaN"
| "f_div (Fin x) b = Fin 0"
| "f_div a (Fin y) = signed_inf (f_sign a * (if y < 0 then - 1 else 1))"
| "f_div a b = NaN"

text \<open>\<open>a < b\<close> for two floats.\<close>

fun f_less :: "pyfloat \<Rightarrow> pyfloat \<Rightarrow> bool" where
  "f_less (Fin x) (Fin y) = (x < y)"
| "f_less NaN b = False"
| "f_less a NaN = False"
| "f_less a NInf = False"
| "f_less PInf b = False"
| "f_less a b = True"

text \<open>Comparisons of a float with a finite number: \<open>a < y\<close>, \<open>a <= y\<close>, \<open>a >= y\<close>.\<close>

fun f_lt :: "pyfloat \<Rightarrow> real \<Rightarrow> bool" where
  "f_lt (Fin x) y = (x < y)"
| "f_lt NInf y = True"
| "f_lt PInf y = False"
| "f_lt NaN y = False"

fun f_le :: "pyfloat \<Rightarrow> real \<Rightarrow> bool" where
  "f_le (Fin x) y = (x \<le> y)"
| "f_le NInf y = True"
| "f_le PInf y = False"
| "f_le NaN y = False"

fun f_ge :: "pyfloat \<Rightarrow> real \<Rightarrow> bool" where
  "f_ge (Fin x) y = (x \<ge> y)"
| "f_ge PInf y = True"
| "f_ge NInf y = False"
| "f_ge NaN y = False"

subsection \<open>\<open>round(x, ndigits)\<close>\<close>

text \<open>
  Python rounds the exact value of the float to the nearest multiple of
  \<open>10 ^ -ndigits\<close>, an exact tie going to the even neighbour (\<open>py_round\<close>), and returns
  the float nearest to that decimal. An infinity and \<open>NaN\<close> are returned unchanged.
\<close>

definition py_round :: "real \<Rightarrow> nat \<Rightarrow> real" where
  "py_round x ndigits = of_int (round_half_even (x * 10 ^ ndigits)) / 10 ^ ndigits"

fun py_round_f :: "pyfloat \<Rightarrow> nat \<Rightarrow> pyfloat" where
  "py_round_f (Fin x) ndigits = rnd (py_round x ndigits)"
| "py_round_f PInf ndigits = PInf"
| "py_round_f NInf ndigits = NInf"
| "py_round_f NaN ndigits = NaN"

subsection \<open>\<open>a / b\<close> for two ints and \<open>math.sqrt\<close>\<close>

text \<open>
  The quotient of two ints is the float nearest to the exact quotient; a zero divisor
  raises \<open>ZeroDivisionError\<close> and a quotient too large for a float \<open>OverflowError\<close>.
\<close>

definition int_truediv :: "int \<Rightarrow> int \<Rightarrow> error + real" where
  "int_truediv a b =
     (if b = 0 then Inl ZeroDivisionError
      else
        (case rnd (real_of_int a / real_of_int b) of
           Fin q \<Rightarrow> Inr q
         | _ \<Rightarrow> Inl OverflowError))"

text \<open>
  \<open>math.sqrt\<close> of a finite float: \<open>ValueError\<close> for a negative argument, otherwise the
  float nearest to the square root.
\<close>

definition math_sqrt :: "real \<Rightarrow> error + real" where
  "math_sqrt x = (if x < 0 then Inl ValueError else Inr (fl (sqrt x)))"

subsection \<open>\<open>datetime.date\<close>\<close>

datatype date = Date (year: nat) (month: nat) (day: nat)

definition is_leap :: "nat \<Rightarrow> bool" where
  "is_leap y = (y mod 4 = 0 \<and> (y mod 100 \<noteq> 0 \<or> y mod 400 = 0))"

definition days_in_month :: "nat \<Rightarrow> nat \<Rightarrow> nat" where
  "days_in_month y m =
     (if m = 2 then (if is_leap y then 29 else 28)
      else if m \<in> {4, 6, 9, 11} then 30 else 31)"

definition days_before_year :: "nat \<Rightarrow> nat" where
  "days_before_year y = (y - 1) * 365 + (y - 1) div 4 - (y - 1) div 100 + (y - 1) div 400"

definition days_before_month :: "nat \<Rightarrow> nat \<Rightarrow> nat" where
  "days_before_month y m = (\<Sum>k \<leftarrow> [1..<m]. days_in_month y k)"

definition toordinal :: "date \<Rightarrow> int" where
  "toordinal d = int (days_before_year (year d) + days_before_month (year d) (month d) + day d)"

text \<open>\<open>(a - b).days\<close> for two dates.\<close>

definition days_between :: "date \<Rightarrow> date \<Rightarrow> int" where
  "days_between a b = toordinal a - toordinal b"

text \<open>Dates compare as the tuples \<open>(year, month, day)\<close>.\<close>

definition date_key :: "date \<Rightarrow> nat \<times> nat \<times> nat" where
  "date_key d = (year d, month d, day d)"

definition date_lt :: "date \<Rightarrow> date \<Rightarrow> bool" where
  "date_lt a b = (date_key a < date_key b)"

definition date_le :: "date \<Rightarrow> date \<Rightarrow> bool" where
  "date_le a b = (a = b \<or> date_lt a b)"

definition valid_date :: "nat \<Rightarrow> nat \<Rightarrow> nat \<Rightarrow> bool" where
  "valid_date y m d =
     (1 \<le> y \<and> y \<le> 9999 \<and> 1 \<le> m \<and> m \<le> 12 \<and> 1 \<le> d \<and> d \<le> days_in_month y m)"

definition date_max :: date where
  "date_max = Date 9999 12 31"

subsection \<open>\<open>datetime.strptime(s, "%Y-%m-%d").date()\<close> and \<open>str(date)\<close>\<close>

definition is_digit :: "char \<Rightarrow> bool" where
  "is_digit c = (c \<in> set ''0123456789'')"

definition digit_val :: "char \<Rightarrow> nat" where
  "digit_val c = of_char c - 48"

text \<open>
  The directive \<open>%m\<close> is the regular expression \<open>1[0-2]|0[1-9]|[1-9]\<close> and \<open>%d\<close>
  is \<open>3[0-1]|[1-2]\d|0[1-9]|[1-9]| [1-9]\<close>: the leading zero is optional, and the
  first alternative that matches is taken. Each function returns the value and the
  rest of the text.
\<close>

fun match_month :: "string \<Rightarrow> (nat \<times> string) option" where
  "match_month (a # b # rest) =
     (if a = CHR ''1'' \<and> b \<in> set ''012'' then Some (10 + digit_val b, rest)
      else if a = CHR ''0'' \<and> b \<in> set ''123456789'' then Some (digit_val b, rest)
      else if a \<in> set ''123456789'' then Some (digit_val a, b # rest)
      else None)"
| "match_month [a] = (if a \<in> set ''123456789'' then Some (digit_val a, []) else None)"
| "match_month [] = None"

fun match_day :: "string \<Rightarrow> (nat \<times> string) option" where
  "match_day (a # b # rest) =
     (if a = CHR ''3'' \<and> b \<in> set ''01'' then Some (30 + digit_val b, rest)
      else if a \<in> set ''12'' \<and> is_digit b then Some (10 * digit_val a + digit_val b, rest)
      else if a = CHR ''0'' \<and> b \<in> set ''123456789'' then Some (digit_val b, rest)
      else if a \<in> set ''123456789'' then Some (digit_val a, b # rest)
      else if a = CHR '' '' \<and> b \<in> set ''123456789'' then Some (digit_val b, rest)
      else None)"
| "match_day [a] = (if a \<in> set ''123456789'' then Some (digit_val a, []) else None)"
| "match_day [] = None"

text \<open>
  The whole text must be consumed (\<open>unconverted data remains\<close> otherwise) and the
  fields must form a date of the calendar; every failure is a \<open>ValueError\<close>.
\<close>

definition strptime_ymd :: "string \<Rightarrow> error + date" where
  "strptime_ymd s =
     (case s of
        y1 # y2 # y3 # y4 # dash1 # rest1 \<Rightarrow>
          if is_digit y1 \<and> is_digit y2 \<and> is_digit y3 \<and> is_digit y4 \<and> dash1 = CHR ''-'' then
            (case match_month rest1 of
               Some (m, dash2 # rest2) \<Rightarrow>
                 if dash2 = CHR ''-'' then
                   (case match_day rest2 of
                      Some (d, []) \<Rightarrow>
                        (let y = 1000 * digit_val y1 + 100 * digit_val y2
                                 + 10 * digit_val y3 + digit_val y4
                         in if valid_date y m d then Inr (Date y m d) else Inl ValueError)
                    | _ \<Rightarrow> Inl ValueError)
                 else Inl ValueError
             | _ \<Rightarrow> Inl ValueError)
          else Inl ValueError
      | _ \<Rightarrow> Inl ValueError)"

definition digit_char :: "nat \<Rightarrow> char" where
  "digit_char n = char_of (48 + n mod 10)"

text \<open>\<open>str(d)\<close> is \<open>d.isoformat()\<close>: \<open>%04d-%02d-%02d\<close>.\<close>

definition isoformat :: "date \<Rightarrow> string" where
  "isoformat d =
     [digit_char (year d div 1000), digit_char (year d div 100), digit_char (year d div 10),
      digit_char (year d), CHR ''-'', digit_char (month d div 10), digit_char (month d),
      CHR ''-'', digit_char (day d div 10), digit_char (day d)]"

section \<open>IV analytics (\<open>iv_analytics.py\<close>)\<close>

subsection \<open>\<open>calculate_iv_percentile\<close>\<close>

text \<open>
  \<open>days_lower / len(historical_ivs)\<close> divides two ints: the divisor is not zero and
  the quotient is at most 1, so the division returns the float nearest to it.
\<close>

definition calculate_iv_percentile :: "pyfloat \<Rightarrow> pyfloat list \<Rightarrow> pyfloat" where
  "calculate_iv_percentile current_iv historical_ivs =
     (if historical_ivs = [] then Fin 50
      else
        let days_lower = length (filter (\<lambda>iv. f_less iv current_iv) historical_ivs);
            percentile = f_mul (rnd (real days_lower / real (length historical_ivs))) (Fin 100)
        in py_round_f percentile 2)"

subsection \<open>\<open>calculate_expected_move\<close>\<close>

definition calculate_expected_move ::
  "pyfloat \<Rightarrow> pyfloat \<Rightarrow> int \<Rightarrow> int
     \<Rightarrow> error + (pyfloat \<times> pyfloat \<times> (pyfloat \<times> pyfloat))" where
  "calculate_expected_move underlying_price iv days_to_expiration annualization_factor =
     (case int_truediv days_to_expiration annualization_factor of
        Inl e \<Rightarrow> Inl e
      | Inr ratio \<Rightarrow>
          (case math_sqrt ratio of
             Inl e \<Rightarrow> Inl e
           | Inr time_factor \<Rightarrow>
               (let expected_move = f_mul (f_mul underlying_price iv) (Fin time_factor);
                    expected_move_percent = f_mul (f_mul iv (Fin time_factor)) (Fin 100);
                    lower_bound = f_sub underlying_price expected_move;
                    upper_bound = f_add underlying_price expected_move
                in Inr (py_round_f expected_move 2, py_round_f expected_move_percent 2,
                        (py_round_f lower_bound 2, py_round_f upper_bound 2)))))"


section \<open>DataFrames of option rows\<close>

text \<open>
  An options chain is a pandas DataFrame: the names of its columns and its rows, in
  order, under the default index \<open>0, 1, 2, ...\<close>. A row has one cell for each column
  the analytics read; the cell of a column the frame does not have is never read.
  \<^item> A cell of \<open>expiration\<close> is a \<open>date\<close> object or any other value, given by its
    text \<open>str(x)\<close>.
  \<^item> A cell of \<open>underlying_price\<close> may be Python's \<open>None\<close> (a column of dtype
    object), which is \<open>None\<close> here.
\<close>

datatype expval = ExpDate date | ExpStr string

record option_row =
  row_strike :: pyfloat
  row_expiration :: expval
  row_option_type :: string
  row_implied_volatility :: pyfloat
  row_underlying_price :: "pyfloat option"

record data_frame =
  columns :: "string list"
  rows :: "option_row list"

text \<open>\<open>df.empty\<close>: an axis of length 0. \<open>DataFrame()\<close> has no column and no row.\<close>

definition df_empty :: "data_frame \<Rightarrow> bool" where
  "df_empty df = (rows df = [] \<or> columns df = [])"

definition DataFrame_new :: data_frame where
  "DataFrame_new = \<lparr>columns = [], rows = []\<rparr>"

definition has_column :: "data_frame \<Rightarrow> string \<Rightarrow> bool" where
  "has_column df c = (c \<in> set (columns df))"

definition str_expval :: "expval \<Rightarrow> string" where
  "str_expval x = (case x of ExpDate d \<Rightarrow> isoformat d | ExpStr s \<Rightarrow> s)"

section \<open>Catalyst screener (\<open>catalyst_screener.py\<close>)\<close>

text \<open>\<open>except (ValueError, TypeError)\<close>\<close>

definition caught :: "error \<Rightarrow> bool" where
  "caught e = (e = ValueError \<or> e = TypeError)"

text \<open>
  The body of the \<open>try\<close> of both date-window loops:
  \<open>exp_date = datetime.strptime(exp_str[:10], "%Y-%m-%d").date()\<close>,
  \<open>days_diff = (exp_date - catalyst_dt).days\<close>.
\<close>

definition expiration_days_diff :: "string \<Rightarrow> date \<Rightarrow> error + int" where
  "expiration_days_diff exp_str catalyst_dt =
     (case strptime_ymd (take 10 exp_str) of
        Inl e \<Rightarrow> Inl e
      | Inr exp_date \<Rightarrow> Inr (days_between exp_date catalyst_dt))"

subsection \<open>\<open>filter_by_catalyst_proximity\<close>\<close>

fun proximity_loop ::
  "string list \<Rightarrow> date \<Rightarrow> int \<Rightarrow> int \<Rightarrow> string list \<Rightarrow> error + string list" where
  "proximity_loop [] catalyst_dt days_before days_after filtered = Inr filtered"
| "proximity_loop (exp_str # rest) catalyst_dt days_before days_after filtered =
     (case expiration_days_diff exp_str catalyst_dt of
        Inr days_diff \<Rightarrow>
          if - days_before \<le> days_diff \<and> days_diff \<le> days_after
          then proximity_loop rest catalyst_dt days_before days_after (filtered @ [exp_str])
          else proximity_loop rest catalyst_dt days_before days_after filtered
      | Inl e \<Rightarrow>
          if caught e then proximity_loop rest catalyst_dt days_before days_after filtered
          else Inl e)"

definition filter_by_catalyst_proximity ::
  "string list \<Rightarrow> date \<Rightarrow> int \<Rightarrow> int \<Rightarrow> error + string list" where
  "filter_by_catalyst_proximity options_expirations catalyst_date days_before days_after =
     proximity_loop options_expirations catalyst_date days_before days_after []"

subsection \<open>\<open>find_nearest_post_catalyst_expiration\<close>\<close>

fun nearest_loop ::
  "string list \<Rightarrow> date \<Rightarrow> int \<Rightarrow> int \<Rightarrow> (string \<times> int) list
     \<Rightarrow> error + (string \<times> int) list" where
  "nearest_loop [] catalyst_dt min_days_after max_days_after valid_expirations =
     Inr valid_expirations"
| "nearest_loop (exp_str # rest) catalyst_dt min_days_after max_days_after valid_expirations =
     (case expiration_days_diff exp_str catalyst_dt of
        Inr days_diff \<Rightarrow>
          if min_days_after \<le> days_diff \<and> days_diff \<le> max_days_after
          then nearest_loop rest catalyst_dt min_days_after max_days_after
                 (valid_expirations @ [(exp_str, days_diff)])
          else nearest_loop rest catalyst_dt min_days_after max_days_after valid_expirations
      | Inl e \<Rightarrow>
          if caught e
          then nearest_loop rest catalyst_dt min_days_after max_days_after valid_expirations
          else Inl e)"

text \<open>\<open>list.sort(key=...)\<close> is stable, as \<open>sort_key\<close> is.\<close>

definition find_nearest_post_catalyst_expiration ::
  "string list \<Rightarrow> date \<Rightarrow> int \<Rightarrow> int \<Rightarrow> error + string option" where
  "find_nearest_post_catalyst_expiration options_expirations catalyst_date
       min_days_after max_days_after =
     (case nearest_loop options_expirations catalyst_date min_days_after max_days_after [] of
        Inl e \<Rightarrow> Inl e
      | Inr valid_expirations \<Rightarrow>
          (case sort_key snd valid_expirations of
             [] \<Rightarrow> Inr None
           | first # _ \<Rightarrow> Inr (Some (fst first))))"

subsection \<open>\<open>screen_options_before_earnings\<close>\<close>

text \<open>The local function \<open>parse_exp\<close>; its \<open>None\<close> is \<open>None\<close>.\<close>

definition parse_exp :: "expval \<Rightarrow> error + date option" where
  "parse_exp x =
     (case x of
        ExpDate d \<Rightarrow> Inr (Some d)
      | ExpStr s \<Rightarrow>
          (case strptime_ymd (take 10 s) of
             Inr d \<Rightarrow> Inr (Some d)
           | Inl e \<Rightarrow> if caught e then Inr None else Inl e))"

text \<open>
  \<open>df["_exp_date"] = df["expiration"].apply(parse_exp)\<close>: each row with its parsed
  date; an exception of \<open>parse_exp\<close> leaves \<open>apply\<close>.
\<close>

fun with_exp_date :: "option_row list \<Rightarrow> error + (option_row \<times> date option) list" where
  "with_exp_date [] = Inr []"
| "with_exp_date (r # rs) =
     (case parse_exp (row_expiration r) of
        Inl e \<Rightarrow> Inl e
      | Inr d \<Rightarrow>
          (case with_exp_date rs of
             Inl e \<Rightarrow> Inl e
           | Inr tagged \<Rightarrow> Inr ((r, d) # tagged)))"

text \<open>
  \<open>df[df["_exp_date"] > earnings_date]\<close>: on a column of objects the comparison is
  false at a \<open>None\<close>, so the rows that stay carry a date.
\<close>

fun rows_after :: "date \<Rightarrow> (option_row \<times> date option) list \<Rightarrow> (option_row \<times> date) list" where
  "rows_after earnings_date [] = []"
| "rows_after earnings_date ((r, None) # tagged) = rows_after earnings_date tagged"
| "rows_after earnings_date ((r, Some x) # tagged) =
     (if date_lt earnings_date x then (r, x) # rows_after earnings_date tagged
      else rows_after earnings_date tagged)"

text \<open>\<open>df["_exp_date"].min()\<close> over the dates that are left.\<close>

fun min_date :: "date \<Rightarrow> date list \<Rightarrow> date" where
  "min_date m [] = m"
| "min_date m (d # ds) = min_date (if date_lt d m then d else m) ds"

text \<open>
  Lines 159 to 179. When no row is left the helper column is not dropped; that frame
  is empty and the caller returns \<open>DataFrame()\<close>.
\<close>

definition first_post_earnings :: "data_frame \<Rightarrow> date \<Rightarrow> error + data_frame" where
  "first_post_earnings df earnings_date =
     (if has_column df ''expiration'' then
        (case with_exp_date (rows df) of
           Inl e \<Rightarrow> Inl e
         | Inr tagged \<Rightarrow>
             (case rows_after earnings_date tagged of
                [] \<Rightarrow> Inr \<lparr>columns = columns df @ [''_exp_date''], rows = []\<rparr>
              | t # ts \<Rightarrow>
                  (let first_exp = min_date (snd t) (map snd ts)
                   in Inr \<lparr>columns = columns df,
                           rows = map fst (filter (\<lambda>(r, x). x = first_exp) (t # ts))\<rparr>)))
      else Inr df)"

text \<open>
  \<open>abs(df["strike"] - underlying_price) / underlying_price * 100 <= max_strike_distance_pct\<close>,
  computed on the float column: each of the three operations rounds.
\<close>

definition strike_within :: "pyfloat \<Rightarrow> pyfloat \<Rightarrow> real \<Rightarrow> bool" where
  "strike_within strike underlying_price max_strike_distance_pct =
     f_le (f_mul (f_div (f_abs (f_sub strike underlying_price)) underlying_price) (Fin 100))
       max_strike_distance_pct"

text \<open>\<open>lambda x: x / 100 if x > 10 else x\<close>\<close>

definition screen_normalize_iv :: "pyfloat \<Rightarrow> pyfloat" where
  "screen_normalize_iv x = (if f_less (Fin 10) x then f_div x (Fin 100) else x)"

definition screen_options_before_earnings ::
  "data_frame \<Rightarrow> date \<Rightarrow> pyfloat \<Rightarrow> real option \<Rightarrow> real \<Rightarrow> string option
     \<Rightarrow> error + data_frame" where
  "screen_options_before_earnings options_df earnings_date underlying_price min_iv
       max_strike_distance_pct option_type =
     (if df_empty options_df then Inr DataFrame_new
      else
        (case first_post_earnings options_df earnings_date of
           Inl e \<Rightarrow> Inl e
         | Inr df1 \<Rightarrow>
             if df_empty df1 then Inr DataFrame_new
             else
               (let df2 =
                      (if has_column df1 ''strike''
                       then df1\<lparr>rows := filter (\<lambda>r. strike_within (row_strike r)
                                       underlying_price max_strike_distance_pct) (rows df1)\<rparr>
                       else df1)
                in if df_empty df2 then Inr DataFrame_new
                   else
                     (let df3 =
                            (case min_iv of
                               Some m \<Rightarrow>
                                 if has_column df2 ''implied_volatility''
                                 then df2\<lparr>rows := filter (\<lambda>r. f_ge (screen_normalize_iv
                                             (row_implied_volatility r)) m) (rows df2)\<rparr>
                                 else df2
                             | None \<Rightarrow> df2);
                          df4 =
                            (case option_type of
                               Some t \<Rightarrow>
                                 if has_column df3 ''option_type''
                                 then df3\<lparr>rows := filter (\<lambda>r. row_option_type r = t)
                                             (rows df3)\<rparr>
                                 else df3
                             | None \<Rightarrow> df3)
                      in Inr df4))))"

subsection \<open>\<open>score_catalyst_play\<close>\<close>

record score_info =
  composite_score :: pyfloat
  iv_rank_score :: pyfloat
  time_alignment_score :: int
  expected_move_score :: int
  recommendation :: string

definition get_recommendation :: "pyfloat \<Rightarrow> pyfloat \<Rightarrow> string" where
  "get_recommendation score iv_rank =
     (if f_ge score 80 \<and> f_ge iv_rank 70
        then ''Strong sell premium candidate (high IV, good timing)''
      else if f_ge score 80 \<and> f_lt iv_rank 30
        then ''Strong buy premium candidate (low IV, good timing)''
      else if f_ge score 60 then ''Moderate opportunity (consider position sizing)''
      else if f_ge score 40 then ''Weak setup (proceed with caution)''
      else ''Poor setup (consider waiting for better entry)'')"

definition time_score_of :: "int \<Rightarrow> int" where
  "time_score_of days_after_catalyst =
     (if days_after_catalyst < 0 then max 0 (50 + days_after_catalyst * 10)
      else if days_after_catalyst \<le> 3 then 100
      else if days_after_catalyst \<le> 7 then 80
      else max 30 (80 - (days_after_catalyst - 7) * 5))"

definition move_score_of :: "pyfloat \<Rightarrow> int" where
  "move_score_of expected_move_pct =
     (if f_lt expected_move_pct 2 then 20
      else if f_lt expected_move_pct 5 then 50
      else if f_lt expected_move_pct 10 then 80
      else 100)"

text \<open>
  The time and move scores are ints between 0 and 100: the product with a float
  converts them exactly, and \<open>round(_, 1)\<close> returns an int unchanged. The
  recommendation is computed from the composite score before it is rounded.
\<close>

definition score_catalyst_play :: "pyfloat \<Rightarrow> pyfloat \<Rightarrow> int \<Rightarrow> int \<Rightarrow> score_info" where
  "score_catalyst_play expected_move_pct iv_rank days_to_catalyst days_to_expiration =
     (let iv_score = iv_rank;
          days_after_catalyst = days_to_expiration - days_to_catalyst;
          time_score = time_score_of days_after_catalyst;
          move_score = move_score_of expected_move_pct;
          composite =
            f_add (f_add (f_mul iv_score (rnd (4 / 10)))
                         (f_mul (Fin (of_int time_score)) (rnd (35 / 100))))
                  (f_mul (Fin (of_int move_score)) (rnd (25 / 100)))
      in \<lparr>composite_score = py_round_f composite 1,
          iv_rank_score = py_round_f iv_score 1,
          time_alignment_score = time_score,
          expected_move_score = move_score,
          recommendation = get_recommendation composite iv_rank\<rparr>)"

section \<open>Rules as the specification words them\<close>

text \<open>
  These definitions follow the words of the specification, not the code; the theorems
  below compare them with the functions translated from the source.
\<close>

definition spec_time_score :: "int \<Rightarrow> int" where
  "spec_time_score d =
     (if d < 0 then max 0 (50 + 10 * d)
      else if 0 \<le> d \<and> d \<le> 3 then 100
      else if 4 \<le> d \<and> d \<le> 7 then 80
      else max 30 (80 - 5 * (d - 7)))"

definition spec_move_score :: "pyfloat \<Rightarrow> int" where
  "spec_move_score m =
     (if f_less m (Fin 2) then 20 else if f_less m (Fin 5) then 50
      else if f_less m (Fin 10) then 80 else 100)"

text \<open>
  \<open>0.4 * iv_rank + 0.35 * time_score + 0.25 * move_score\<close>, read as the float
  expression it is, and rounded to one decimal.
\<close>

definition spec_composite :: "pyfloat \<Rightarrow> int \<Rightarrow> int \<Rightarrow> pyfloat" where
  "spec_composite iv_rank time_score move_score =
     py_round_f
       (f_add (f_add (f_mul (rnd (4 / 10)) iv_rank)
                     (f_mul (rnd (35 / 100)) (Fin (of_int time_score))))
              (f_mul (rnd (25 / 100)) (Fin (of_int move_score)))) 1"

section \<open>Properties\<close>

subsection \<open>Rounding\<close>

lemma round_half_even_of_int [simp]: "round_half_even (of_int k) = k"
  by (simp add: round_half_even_def)

lemma round_half_even_zero [simp]: "round_half_even 0 = 0"
  using round_half_even_of_int [of 0] by simp

lemma py_round_zero [simp]: "py_round 0 n = 0"
  by (simp add: py_round_def)

lemma py_round_exact: "x * 10 ^ n = of_int k \<Longrightarrow> py_round x n = x"
proof -
  assume h: "x * 10 ^ n = of_int k"
  have "py_round x n = of_int k / 10 ^ n"
    by (simp add: py_round_def h)
  also have "\<dots> = x"
    using h by (simp add: field_simps)
  finally show ?thesis .
qed

lemma two_powi_less_imp: "(2::real) powi a < 2 powi b \<Longrightarrow> a < b"
proof (rule ccontr)
  assume l: "(2::real) powi a < 2 powi b" and "\<not> a < b"
  then have "(2::real) powi b \<le> 2 powi a"
    by (intro power_int_increasing) simp_all
  then show False
    using l by simp
qed

lemma two_powi_le_imp: "(2::real) powi a \<le> 2 powi b \<Longrightarrow> a \<le> b"
proof (rule ccontr)
  assume l: "(2::real) powi a \<le> 2 powi b" and "\<not> a \<le> b"
  then have "(2::real) powi b < 2 powi a"
    by (intro power_int_strict_increasing) simp_all
  then show False
    using l by simp
qed

lemma two_powi_neg_Suc: "(2::real) powi (- int (Suc n)) = 2 powi (- int n) / 2"
proof -
  have e: "- int (Suc n) = - int n - 1"
    by simp
  show ?thesis
    unfolding e by (subst power_int_diff) simp_all
qed

lemma expo_ge1_bounds:
  "1 \<le> x \<Longrightarrow> 2 powi expo_ge1 x \<le> x \<and> x < 2 powi (expo_ge1 x + 1) \<and> 0 \<le> expo_ge1 x"
proof (induction x rule: expo_ge1.induct)
  case (1 x)
  show ?case
  proof (cases "x < 2")
    case True
    then have "expo_ge1 x = 0"
      by (subst expo_ge1.simps) simp
    then show ?thesis
      using True 1(2) by simp
  next
    case False
    then have h: "1 \<le> x / 2"
      by simp
    have IH: "2 powi expo_ge1 (x / 2) \<le> x / 2 \<and> x / 2 < 2 powi (expo_ge1 (x / 2) + 1)
        \<and> 0 \<le> expo_ge1 (x / 2)"
      using 1(1) [OF False h] .
    have e: "expo_ge1 x = 1 + expo_ge1 (x / 2)"
      using False by (subst expo_ge1.simps) simp
    have p: "(2::real) powi (1 + expo_ge1 (x / 2)) = 2 * 2 powi expo_ge1 (x / 2)"
      and q: "(2::real) powi (1 + expo_ge1 (x / 2) + 1) = 2 * 2 powi (expo_ge1 (x / 2) + 1)"
      by (simp_all add: power_int_add)
    show ?thesis
      unfolding e p q using IH by simp
  qed
qed

lemma expo_lt1_ge1: "1 \<le> y \<Longrightarrow> expo_lt1 n y = 0"
  by (cases n) simp_all

lemma expo_lt1_bounds:
  "0 < x \<Longrightarrow> x < 1 \<Longrightarrow> 2 powi (- int n) \<le> x
     \<Longrightarrow> 2 powi expo_lt1 n x \<le> x \<and> x < 2 powi (expo_lt1 n x + 1) \<and> - int n \<le> expo_lt1 n x"
proof (induction n arbitrary: x)
  case 0
  then show ?case by simp
next
  case (Suc n)
  have e: "expo_lt1 (Suc n) x = expo_lt1 n (2 * x) - 1"
    using Suc.prems by simp
  show ?case
  proof (cases "1 \<le> 2 * x")
    case True
    then have "expo_lt1 (Suc n) x = - 1"
      using e by (simp add: expo_lt1_ge1)
    then show ?thesis
      using True Suc.prems by simp
  next
    case False
    have "(2::real) powi (- int (Suc n)) = 2 powi (- int n) / 2"
      by (rule two_powi_neg_Suc)
    then have "2 powi (- int n) \<le> 2 * x"
      using Suc.prems(3) by simp
    then have IH: "2 powi expo_lt1 n (2 * x) \<le> 2 * x \<and> 2 * x < 2 powi (expo_lt1 n (2 * x) + 1)
        \<and> - int n \<le> expo_lt1 n (2 * x)"
      using Suc.IH [of "2 * x"] False Suc.prems by simp
    have p: "(2::real) powi (expo_lt1 n (2 * x) - 1) = 2 powi expo_lt1 n (2 * x) / 2"
      by (simp add: power_int_diff)
    have q: "(2::real) powi (expo_lt1 n (2 * x) - 1 + 1) = 2 powi (expo_lt1 n (2 * x) + 1) / 2"
      by (simp add: power_int_add)
    show ?thesis
      unfolding e p q using IH by simp
  qed
qed

lemma expo_lt1_small: "0 \<le> x \<Longrightarrow> x < 2 powi (- int n) \<Longrightarrow> expo_lt1 n x = - int n"
proof (induction n arbitrary: x)
  case 0
  then show ?case by simp
next
  case (Suc n)
  have h: "(2::real) powi (- int (Suc n)) = 2 powi (- int n) / 2"
    by (rule two_powi_neg_Suc)
  have "(2::real) powi (- int n) \<le> 1"
    by (simp add: power_int_minus field_simps)
  then have "x < 1"
    using Suc.prems h by simp
  moreover have "expo_lt1 n (2 * x) = - int n"
    using Suc.IH [of "2 * x"] Suc.prems h by simp
  ultimately show ?case
    by simp
qed

lemma float_exponent_ge: "- 1022 \<le> float_exponent x"
proof (cases "1 \<le> \<bar>x\<bar>")
  case True
  then show ?thesis
    using expo_ge1_bounds [of "\<bar>x\<bar>"] by (simp add: float_exponent_def)
next
  case False
  show ?thesis
  proof (cases "\<bar>x\<bar> < 2 powi (- int 1022)")
    case True
    then show ?thesis
      using False expo_lt1_small [of "\<bar>x\<bar>" 1022] by (simp add: float_exponent_def)
  next
    case F: False
    then have "0 < \<bar>x\<bar>"
      by (smt (verit) zero_less_power_int)
    then show ?thesis
      using False F expo_lt1_bounds [of "\<bar>x\<bar>" 1022] by (simp add: float_exponent_def)
  qed
qed

lemma float_exponent_upper: "\<bar>x\<bar> < 2 powi (float_exponent x + 1)"
proof (cases "1 \<le> \<bar>x\<bar>")
  case True
  then show ?thesis
    using expo_ge1_bounds [of "\<bar>x\<bar>"] by (simp add: float_exponent_def)
next
  case False
  show ?thesis
  proof (cases "\<bar>x\<bar> < 2 powi (- int 1022)")
    case True
    have "float_exponent x = - 1022"
      using True False expo_lt1_small [of "\<bar>x\<bar>" 1022] by (simp add: float_exponent_def)
    moreover have "(2::real) powi (- int 1022) \<le> 2 powi (- 1022 + 1)"
      by (intro power_int_increasing) simp_all
    ultimately show ?thesis
      using True by simp
  next
    case F: False
    then have "0 < \<bar>x\<bar>"
      by (smt (verit) zero_less_power_int)
    then show ?thesis
      using False F expo_lt1_bounds [of "\<bar>x\<bar>" 1022] by (simp add: float_exponent_def)
  qed
qed

lemma float_exponent_lower: "- 1022 < float_exponent x \<Longrightarrow> 2 powi float_exponent x \<le> \<bar>x\<bar>"
proof (cases "1 \<le> \<bar>x\<bar>")
  case True
  then show ?thesis
    using expo_ge1_bounds [of "\<bar>x\<bar>"] by (simp add: float_exponent_def)
next
  case False
  assume a: "- 1022 < float_exponent x"
  show ?thesis
  proof (cases "\<bar>x\<bar> < 2 powi (- int 1022)")
    case True
    have "float_exponent x = - 1022"
      using True False expo_lt1_small [of "\<bar>x\<bar>" 1022] by (simp add: float_exponent_def)
    then show ?thesis
      using a by simp
  next
    case F: False
    then have "0 < \<bar>x\<bar>"
      by (smt (verit) zero_less_power_int)
    then show ?thesis
      using False F expo_lt1_bounds [of "\<bar>x\<bar>" 1022] by (simp add: float_exponent_def)
  qed
qed

lemma float_exponent_eq:
  assumes "2 powi e \<le> \<bar>x\<bar>" and "\<bar>x\<bar> < 2 powi (e + 1)" and "- 1022 \<le> e"
  shows "float_exponent x = e"
proof -
  let ?f = "float_exponent x"
  have "(2::real) powi e < 2 powi (?f + 1)"
    using assms(1) float_exponent_upper [of x] by simp
  then have 1: "e < ?f + 1"
    by (rule two_powi_less_imp)
  have 2: "?f < e + 1"
  proof (cases "- 1022 < ?f")
    case True
    then have "(2::real) powi ?f < 2 powi (e + 1)"
      using float_exponent_lower [of x] assms(2) by simp
    then show ?thesis
      by (rule two_powi_less_imp)
  next
    case False
    then show ?thesis
      using assms(3) by simp
  qed
  show ?thesis
    using 1 2 by simp
qed

lemma float_exponent_subnormal:
  assumes "\<bar>x\<bar> < 2 powi (- 1022)"
  shows "float_exponent x = - 1022"
proof (rule ccontr)
  assume "float_exponent x \<noteq> - 1022"
  then have a: "- 1022 < float_exponent x"
    using float_exponent_ge [of x] by simp
  then have "(2::real) powi (- 1022) \<le> 2 powi float_exponent x"
    by (intro power_int_increasing) simp_all
  then show False
    using float_exponent_lower [OF a] assms by simp
qed

lemma fl_eval:
  assumes "2 powi e \<le> \<bar>x\<bar>" and "\<bar>x\<bar> < 2 powi (e + 1)" and "- 1022 \<le> e"
  shows "fl x = of_int (round_half_even (x / 2 powi (e - 52))) * 2 powi (e - 52)"
  using float_exponent_eq [OF assms] by (simp add: fl_def ulp_def)

lemma round_half_even_error: "\<bar>of_int (round_half_even y) - y\<bar> \<le> 1 / 2"
  unfolding round_half_even_def Let_def by (auto simp: abs_if) linarith+

lemma fl_error_ulp: "\<bar>fl x - x\<bar> \<le> ulp x / 2"
proof -
  have u: "0 < ulp x"
    by (simp add: ulp_def)
  have "fl x - x = (of_int (round_half_even (x / ulp x)) - x / ulp x) * ulp x"
    using u by (simp add: fl_def field_simps)
  then have "\<bar>fl x - x\<bar> = \<bar>of_int (round_half_even (x / ulp x)) - x / ulp x\<bar> * ulp x"
    using u by (simp add: abs_mult)
  also have "\<dots> \<le> 1 / 2 * ulp x"
    using u round_half_even_error [of "x / ulp x"] by (intro mult_right_mono) simp_all
  finally show ?thesis
    by simp
qed

lemma ulp_le:
  assumes "\<bar>x\<bar> \<le> 2 powi k" and "- 1022 \<le> k"
  shows "ulp x \<le> 2 powi (k - 52)"
proof -
  have "float_exponent x \<le> k"
  proof (cases "- 1022 < float_exponent x")
    case True
    then have "(2::real) powi float_exponent x \<le> 2 powi k"
      using float_exponent_lower [of x] assms(1) by simp
    then show ?thesis
      by (rule two_powi_le_imp)
  next
    case False
    then show ?thesis
      using assms(2) by simp
  qed
  then show ?thesis
    unfolding ulp_def by (intro power_int_increasing) simp_all
qed

lemma fl_error:
  assumes "\<bar>x\<bar> \<le> 2 powi k" and "- 1022 \<le> k"
  shows "\<bar>fl x - x\<bar> \<le> 2 powi (k - 53)"
proof -
  have "(2::real) powi (k - 52) = 2 * 2 powi (k - 53)"
    by (simp add: power_int_diff)
  then show ?thesis
    using fl_error_ulp [of x] ulp_le [OF assms] by simp
qed

lemma py_round_error: "\<bar>py_round x n - x\<bar> \<le> 1 / (2 * 10 ^ n)"
proof -
  have "py_round x n - x = (of_int (round_half_even (x * 10 ^ n)) - x * 10 ^ n) / 10 ^ n"
    by (simp add: py_round_def field_simps)
  then have "\<bar>py_round x n - x\<bar> = \<bar>of_int (round_half_even (x * 10 ^ n)) - x * 10 ^ n\<bar> / 10 ^ n"
    by (simp add: abs_divide)
  also have "\<dots> \<le> (1 / 2) / 10 ^ n"
    using round_half_even_error [of "x * 10 ^ n"] by (intro divide_right_mono) simp_all
  finally show ?thesis
    by simp
qed

lemma rnd_bounded:
  assumes "\<bar>x\<bar> \<le> 2 powi k" and "- 1022 \<le> k" and "k \<le> 1023"
  shows "rnd x = Fin (fl x)" and "\<bar>fl x - x\<bar> \<le> 2 powi (k - 53)"
proof -
  show e: "\<bar>fl x - x\<bar> \<le> 2 powi (k - 53)"
    using assms by (intro fl_error)
  have "(2::real) powi k \<le> 2 powi 1023"
    using assms(3) by (intro power_int_increasing) simp_all
  moreover have "(2::real) powi (k - 53) \<le> 2 powi 970"
    using assms(3) by (intro power_int_increasing) simp_all
  moreover have "(2::real) powi 1023 + 2 powi 970 < 2 ^ 1024"
    by simp
  ultimately have "\<bar>fl x\<bar> < 2 ^ 1024"
    using e assms(1) by linarith
  then show "rnd x = Fin (fl x)"
    by (simp add: rnd_def Let_def abs_less_iff not_le)
qed

lemma rnd_eval:
  assumes "2 powi e \<le> \<bar>x\<bar>" and "\<bar>x\<bar> < 2 powi (e + 1)" and "- 1022 \<le> e" and "e \<le> 1022"
  shows "rnd x = Fin (of_int (round_half_even (x / 2 powi (e - 52))) * 2 powi (e - 52))"
proof -
  have "rnd x = Fin (fl x)"
    using assms by (intro rnd_bounded(1) [where k = "e + 1"]) simp_all
  then show ?thesis
    using fl_eval [OF assms(1-3)] by simp
qed

lemma fl_zero [simp]: "fl 0 = 0"
  by (simp add: fl_def)

lemma rnd_zero [simp]: "rnd 0 = Fin 0"
  by (simp add: rnd_def)

subsection \<open>IV percentile\<close>

lemma calculate_iv_percentile_nonempty:
  "hist \<noteq> [] \<Longrightarrow>
     calculate_iv_percentile x hist
       = py_round_f (f_mul (rnd (real (length (filter (\<lambda>h. f_less h x) hist)) / real (length hist)))
           (Fin 100)) 2"
  by (simp add: calculate_iv_percentile_def Let_def)

lemma rnd_one_third: "rnd (1 / 3) = Fin (6004799503160661 / 18014398509481984)"
  by (subst rnd_eval [where e = "- 2"]) (simp_all add: round_half_even_def power_int_minus)

lemma mul_one_third_100: "f_mul (Fin (6004799503160661 / 18014398509481984)) (Fin 100) = Fin (2345624805922133 / 70368744177664)"
  unfolding f_mul.simps
  by (subst rnd_eval [where e = "5"]) (simp_all add: round_half_even_def power_int_minus)

lemma round_33_33: "py_round (2345624805922133 / 70368744177664) 2 = 3333 / 100"
  by (simp add: py_round_def round_half_even_def)

lemma rnd_33_33: "rnd (3333 / 100) = Fin (2345390243441541 / 70368744177664)"
  by (subst rnd_eval [where e = "5"]) (simp_all add: round_half_even_def power_int_minus)

lemma rnd_23_160: "rnd (23 / 160) = Fin (2589569785738035 / 18014398509481984)"
  by (subst rnd_eval [where e = "- 3"]) (simp_all add: round_half_even_def power_int_minus)

lemma mul_23_160_100: "f_mul (Fin (2589569785738035 / 18014398509481984)) (Fin 100) = Fin (8092405580431359 / 562949953421312)"
  unfolding f_mul.simps
  by (subst rnd_eval [where e = "3"]) (simp_all add: round_half_even_def power_int_minus)

lemma round_14_37: "py_round (8092405580431359 / 562949953421312) 2 = 1437 / 100"
  by (simp add: py_round_def round_half_even_def)

text \<open>
  C6, the claim as stated. With one entry of three below the current value the exact
  quotient is \<open>100 / 3\<close>, and the function returns the float \<open>33.33\<close>: the result is
  rounded to two decimals, so it is not exactly \<open>100 * count / len\<close>.
\<close>

theorem iv_percentile_exact_counterexample:
  "calculate_iv_percentile (Fin 2) [Fin 1, Fin 3, Fin 3]
     \<noteq> Fin (100 * real (length (filter (\<lambda>h. h < 2) [1, 3, 3 :: real]))
              / real (length [1, 3, 3 :: real]))"
proof -
  have "calculate_iv_percentile (Fin 2) [Fin 1, Fin 3, Fin 3]
          = py_round_f (f_mul (rnd (1 / 3)) (Fin 100)) 2"
    by (simp add: calculate_iv_percentile_def Let_def)
  also have "\<dots> = Fin (2345390243441541 / 70368744177664)"
    by (simp only: rnd_one_third mul_one_third_100 py_round_f.simps round_33_33 rnd_33_33)
  finally show ?thesis
    by simp
qed

lemma iv_percentile_no_lower:
  assumes "hist \<noteq> []" and "\<forall>h \<in> set hist. \<not> f_less h x"
  shows "calculate_iv_percentile x hist = Fin 0"
proof -
  have "filter (\<lambda>h. f_less h x) hist = []"
    using assms(2) by (auto simp: filter_empty_conv)
  then show ?thesis
    using assms(1) by (simp add: calculate_iv_percentile_nonempty)
qed

lemma iv_percentile_close:
  assumes "hist \<noteq> []"
  shows "\<exists>v. calculate_iv_percentile x hist = Fin v
           \<and> \<bar>v - 100 * real (length (filter (\<lambda>h. f_less h x) hist)) / real (length hist)\<bar>
               \<le> 5 / 1000 + 1 / 10 ^ 12"
proof -
  define r where "r = real (length (filter (\<lambda>h. f_less h x) hist)) / real (length hist)"
  define q where "q = fl r"
  define p where "p = fl (q * 100)"
  define c where "c = py_round p 2"
  have n: "0 < real (length hist)"
    using assms by simp
  have "real (length (filter (\<lambda>h. f_less h x) hist)) \<le> real (length hist)"
    by simp
  then have r1: "r \<le> 1"
    unfolding r_def using n by (simp add: divide_le_eq)
  have r0: "0 \<le> r"
    unfolding r_def by simp
  have p53: "(2::real) powi (0 - 53) = 1 / 9007199254740992"
    and p46: "(2::real) powi (7 - 53) = 1 / 70368744177664"
    and p7: "(2::real) powi 7 = 128"
    by (simp_all add: power_int_minus)
  have "\<bar>r\<bar> \<le> 2 powi 0"
    using r0 r1 by simp
  then have q: "rnd r = Fin q" and qe: "\<bar>q - r\<bar> \<le> 1 / 9007199254740992"
    unfolding q_def using rnd_bounded [of r 0] p53 by simp_all
  have "\<bar>q * 100\<bar> \<le> 128"
    using qe r0 r1 by linarith
  then have "\<bar>q * 100\<bar> \<le> 2 powi 7"
    using p7 by simp
  then have p: "rnd (q * 100) = Fin p" and pe: "\<bar>p - q * 100\<bar> \<le> 1 / 70368744177664"
    unfolding p_def using rnd_bounded [of "q * 100" 7] p46 by simp_all
  have "\<bar>py_round p 2 - p\<bar> \<le> 1 / (2 * 10 ^ 2)"
    by (rule py_round_error)
  then have ce: "\<bar>c - p\<bar> \<le> 1 / 200"
    unfolding c_def by simp
  have "\<bar>c\<bar> \<le> 128"
    using ce pe qe r0 r1 by linarith
  then have "\<bar>c\<bar> \<le> 2 powi 7"
    using p7 by simp
  then have v: "rnd c = Fin (fl c)" and ve: "\<bar>fl c - c\<bar> \<le> 1 / 70368744177664"
    using rnd_bounded [of c 7] p46 by simp_all
  have "calculate_iv_percentile x hist = Fin (fl c)"
    using assms q p v by (simp add: calculate_iv_percentile_nonempty r_def [symmetric] c_def)
  moreover have "\<bar>fl c - 100 * r\<bar> \<le> 5 / 1000 + 1 / 1000000000000"
    using ve ce pe qe by linarith
  then have "\<bar>fl c - 100 * r\<bar> \<le> 5 / 1000 + 1 / 10 ^ 12"
    by simp
  ultimately show ?thesis
    unfolding r_def by auto
qed

lemma iv_percentile_23_of_160:
  "calculate_iv_percentile (Fin 1) (replicate 23 (Fin 0) @ replicate 137 (Fin 2)) = rnd (1437 / 100)"
proof -
  let ?hist = "replicate 23 (Fin 0) @ replicate 137 (Fin 2)"
  have ne: "?hist \<noteq> []"
    by simp
  have f: "filter (\<lambda>h. f_less h (Fin 1)) ?hist = replicate 23 (Fin 0)"
    by (simp add: filter_replicate)
  have "real (length (filter (\<lambda>h. f_less h (Fin 1)) ?hist)) / real (length ?hist) = 23 / 160"
    unfolding f by simp
  then have "calculate_iv_percentile (Fin 1) ?hist
          = py_round_f (f_mul (rnd (23 / 160)) (Fin 100)) 2"
    using calculate_iv_percentile_nonempty [OF ne, of "Fin 1"] by (simp only:)
  also have "\<dots> = rnd (1437 / 100)"
    by (simp only: rnd_23_160 mul_23_160_100 py_round_f.simps round_14_37)
  finally show ?thesis .
qed

text \<open>
  C6, amended. An empty history gives \<open>50\<close>. A non-empty history gives the float
  \<open>round((count / len(hist)) * 100, 2)\<close>, where \<open>count\<close> is the number of entries
  strictly below the current value: a finite number within \<open>0.005 + 10 ^ -12\<close> of
  \<open>100 * count / len(hist)\<close>. Ties do not count: when no entry is below the current
  value, as when it equals every entry, the result is \<open>0\<close>. With 23 entries of 160
  below, the result is \<open>14.37\<close>, where \<open>100 * 23 / 160\<close> is \<open>14.375\<close>.
\<close>

theorem iv_percentile_rounded:
  "calculate_iv_percentile x [] = Fin 50
   \<and> (hist \<noteq> [] \<longrightarrow>
        calculate_iv_percentile x hist
          = py_round_f (f_mul (rnd (real (length (filter (\<lambda>h. f_less h x) hist))
                                      / real (length hist))) (Fin 100)) 2
        \<and> (\<exists>v. calculate_iv_percentile x hist = Fin v
              \<and> \<bar>v - 100 * real (length (filter (\<lambda>h. f_less h x) hist)) / real (length hist)\<bar>
                  \<le> 5 / 1000 + 1 / 10 ^ 12))
   \<and> (hist \<noteq> [] \<and> (\<forall>h \<in> set hist. \<not> f_less h x) \<longrightarrow> calculate_iv_percentile x hist = Fin 0)
   \<and> calculate_iv_percentile (Fin 1) (replicate 23 (Fin 0) @ replicate 137 (Fin 2))
       = rnd (1437 / 100)"
proof -
  have empty: "calculate_iv_percentile x [] = Fin 50"
    by (simp add: calculate_iv_percentile_def)
  show ?thesis
    using empty calculate_iv_percentile_nonempty [of hist x] iv_percentile_close [of hist x]
      iv_percentile_no_lower [of hist x] iv_percentile_23_of_160
    by blast
qed

theorem iv_percentile_rounded_witness:
  "calculate_iv_percentile (Fin 2) [] = Fin 50
   \<and> (\<exists>v. calculate_iv_percentile (Fin 2) [Fin 1, Fin 3, Fin 3] = Fin v
         \<and> \<bar>v - 100 / 3\<bar> \<le> 5 / 1000 + 1 / 10 ^ 12)
   \<and> calculate_iv_percentile (Fin 3) [Fin 3, Fin 3, NaN] = Fin 0"
proof -
  have ne: "[Fin 1, Fin 3, Fin 3] \<noteq> []" "[Fin 3, Fin 3, NaN] \<noteq> []"
    by simp_all
  have nl: "\<forall>h \<in> set [Fin 3, Fin 3, NaN]. \<not> f_less h (Fin 3)"
    by simp
  have q: "100 * real (length (filter (\<lambda>h. f_less h (Fin 2)) [Fin 1, Fin 3, Fin 3]))
             / real (length [Fin 1, Fin 3, Fin 3]) = 100 / 3"
    by simp
  have a: "calculate_iv_percentile (Fin 2) [] = Fin 50"
    using iv_percentile_rounded [of "Fin 2" "[Fin 1, Fin 3, Fin 3]"] by blast
  have b: "\<exists>v. calculate_iv_percentile (Fin 2) [Fin 1, Fin 3, Fin 3] = Fin v
         \<and> \<bar>v - 100 * real (length (filter (\<lambda>h. f_less h (Fin 2)) [Fin 1, Fin 3, Fin 3]))
                   / real (length [Fin 1, Fin 3, Fin 3])\<bar> \<le> 5 / 1000 + 1 / 10 ^ 12"
    using iv_percentile_rounded [of "Fin 2" "[Fin 1, Fin 3, Fin 3]"] ne by blast
  have c: "calculate_iv_percentile (Fin 3) [Fin 3, Fin 3, NaN] = Fin 0"
    using iv_percentile_rounded [of "Fin 3" "[Fin 3, Fin 3, NaN]"] ne nl by blast
  show ?thesis
    using a b [unfolded q] c by blast
qed

subsection \<open>Expected move\<close>

lemma signed_inf_not_Fin [simp]: "signed_inf s \<noteq> Fin z"
  by (simp add: signed_inf_def)

lemma f_mul_Fin:
  assumes "f_mul a b = Fin z"
  shows "\<exists>x y. a = Fin x \<and> b = Fin y"
  using assms by (cases a; cases b) simp_all

lemma round_half_even_nonneg: "0 \<le> x \<Longrightarrow> 0 \<le> round_half_even x"
  unfolding round_half_even_def Let_def by (auto simp: zero_le_floor)

lemma fl_nonneg: "0 \<le> x \<Longrightarrow> 0 \<le> fl x"
proof -
  assume "0 \<le> x"
  moreover have "0 < ulp x"
    by (simp add: ulp_def)
  ultimately have "0 \<le> round_half_even (x / ulp x)"
    by (intro round_half_even_nonneg) simp
  then show ?thesis
    using \<open>0 < ulp x\<close> by (simp add: fl_def)
qed

lemma fl_one [simp]: "fl 1 = 1"
  by (subst fl_eval [where e = 0]) (simp_all add: round_half_even_def power_int_minus)

lemma rnd_one [simp]: "rnd 1 = Fin 1"
  by (subst rnd_eval [where e = 0]) (simp_all add: round_half_even_def power_int_minus)

lemma int_truediv_zero: "b \<noteq> 0 \<Longrightarrow> int_truediv 0 b = Inr 0"
  by (simp add: int_truediv_def)

lemma int_truediv_self: "b \<noteq> 0 \<Longrightarrow> int_truediv b b = Inr 1"
  by (simp add: int_truediv_def)

lemma int_truediv_365: "int_truediv 365 365 = Inr 1"
  by (simp add: int_truediv_def)

lemma math_sqrt_zero: "math_sqrt 0 = Inr 0"
  by (simp add: math_sqrt_def)

lemma math_sqrt_one: "math_sqrt 1 = Inr 1"
  by (simp add: math_sqrt_def)

lemma calculate_expected_move_eval:
  assumes "int_truediv d a = Inr q" and "math_sqrt q = Inr t"
  shows "calculate_expected_move P iv d a
           = Inr (py_round_f (f_mul (f_mul P iv) (Fin t)) 2,
                  py_round_f (f_mul (f_mul iv (Fin t)) (Fin 100)) 2,
                  (py_round_f (f_sub P (f_mul (f_mul P iv) (Fin t))) 2,
                   py_round_f (f_add P (f_mul (f_mul P iv) (Fin t))) 2))"
  using assms by (simp add: calculate_expected_move_def Let_def)

lemma expected_move_zero_days:
  assumes "ann \<noteq> 0" and "is_float p" and "f_mul (Fin p) iv = Fin z"
  shows "calculate_expected_move (Fin p) iv 0 ann
           = Inr (Fin 0, Fin 0, (py_round_f (Fin p) 2, py_round_f (Fin p) 2))"
proof -
  obtain v where iv: "iv = Fin v"
    using f_mul_Fin [OF assms(3)] by blast
  have p: "rnd p = Fin p"
    using assms(2) by (simp add: is_float_def)
  have "calculate_expected_move (Fin p) iv 0 ann
           = Inr (py_round_f (f_mul (f_mul (Fin p) iv) (Fin 0)) 2,
                  py_round_f (f_mul (f_mul iv (Fin 0)) (Fin 100)) 2,
                  (py_round_f (f_sub (Fin p) (f_mul (f_mul (Fin p) iv) (Fin 0))) 2,
                   py_round_f (f_add (Fin p) (f_mul (f_mul (Fin p) iv) (Fin 0))) 2))"
    by (rule calculate_expected_move_eval [OF int_truediv_zero [OF assms(1)] math_sqrt_zero])
  also have "\<dots> = Inr (Fin 0, Fin 0, (py_round_f (Fin p) 2, py_round_f (Fin p) 2))"
    unfolding assms(3) by (simp add: iv f_sub_def p)
  finally show ?thesis .
qed

lemma expected_move_zero_days_exact:
  assumes "ann \<noteq> 0" and "is_float p" and "f_mul (Fin p) iv = Fin z" and "p * 100 = of_int k"
  shows "calculate_expected_move (Fin p) iv 0 ann = Inr (Fin 0, Fin 0, (Fin p, Fin p))"
proof -
  have "py_round p 2 = p"
    using assms(4) py_round_exact [of p 2 k] by simp
  then have "py_round_f (Fin p) 2 = Fin p"
    using assms(2) by (simp add: is_float_def)
  then show ?thesis
    using expected_move_zero_days [OF assms(1-3)] by simp
qed

lemma expected_move_positive_days:
  assumes "0 < days" and "0 < ann" and "rnd (real_of_int days / real_of_int ann) = Fin q"
  shows "calculate_expected_move P iv days ann
           = Inr (py_round_f (f_mul (f_mul P iv) (Fin (fl (sqrt q)))) 2,
                  py_round_f (f_mul (f_mul iv (Fin (fl (sqrt q)))) (Fin 100)) 2,
                  (py_round_f (f_sub P (f_mul (f_mul P iv) (Fin (fl (sqrt q))))) 2,
                   py_round_f (f_add P (f_mul (f_mul P iv) (Fin (fl (sqrt q))))) 2))"
proof -
  have "0 \<le> real_of_int days / real_of_int ann"
    using assms(1,2) by simp
  then have "0 \<le> fl (real_of_int days / real_of_int ann)"
    by (rule fl_nonneg)
  moreover have "q = fl (real_of_int days / real_of_int ann)"
    using assms(3) by (simp add: rnd_def Let_def split: if_splits)
  ultimately have "math_sqrt q = Inr (fl (sqrt q))"
    by (simp add: math_sqrt_def)
  moreover have "int_truediv days ann = Inr q"
    using assms(2,3) by (simp add: int_truediv_def)
  ultimately show ?thesis
    by (intro calculate_expected_move_eval)
qed

lemma em_a_1: "rnd (1575 / 10000) = Fin (5674535530486825 / 36028797018963968)"
  by (subst rnd_eval [where e = "- 3"]) (simp_all add: round_half_even_def power_int_minus)

lemma em_a_2: "f_mul (Fin (10)) (Fin (5674535530486825 / 36028797018963968)) = Fin (7093169413108531 / 4503599627370496)"
  unfolding f_mul.simps
  by (subst rnd_eval [where e = "0"]) (simp_all add: round_half_even_def power_int_minus)

lemma em_a_3: "f_mul (Fin (7093169413108531 / 4503599627370496)) (Fin (1)) = Fin (7093169413108531 / 4503599627370496)"
  unfolding f_mul.simps
  by (subst rnd_eval [where e = "0"]) (simp_all add: round_half_even_def power_int_minus)

lemma em_a_4: "f_mul (Fin (5674535530486825 / 36028797018963968)) (Fin (1)) = Fin (5674535530486825 / 36028797018963968)"
  unfolding f_mul.simps
  by (subst rnd_eval [where e = "- 3"]) (simp_all add: round_half_even_def power_int_minus)

lemma em_a_5: "f_mul (Fin (5674535530486825 / 36028797018963968)) (Fin (100)) = Fin (63 / 4)"
  unfolding f_mul.simps
  by (subst rnd_eval [where e = "3"]) (simp_all add: round_half_even_def power_int_minus)

lemma em_a_6: "f_sub (Fin (10)) (Fin (7093169413108531 / 4503599627370496)) = Fin (2371426678787277 / 281474976710656)"
  unfolding f_sub_def f_neg.simps f_add.simps
  by (subst rnd_eval [where e = "3"]) (simp_all add: round_half_even_def power_int_minus)

lemma em_a_7: "f_add (Fin (10)) (Fin (7093169413108531 / 4503599627370496)) = Fin (3258072855425843 / 281474976710656)"
  unfolding f_add.simps
  by (subst rnd_eval [where e = "3"]) (simp_all add: round_half_even_def power_int_minus)

lemma em_a_8: "py_round_f (Fin (7093169413108531 / 4503599627370496)) 2 = rnd (157 / 100)"
  by (simp add: py_round_def round_half_even_def)

lemma em_a_9: "py_round_f (Fin (63 / 4)) 2 = rnd (1575 / 100)"
  by (simp add: py_round_def round_half_even_def)

lemma em_a_10: "py_round_f (Fin (2371426678787277 / 281474976710656)) 2 = rnd (843 / 100)"
  by (simp add: py_round_def round_half_even_def)

lemma em_a_11: "py_round_f (Fin (3258072855425843 / 281474976710656)) 2 = rnd (1157 / 100)"
  by (simp add: py_round_def round_half_even_def)

lemma expected_move_example:
  "calculate_expected_move (Fin 10) (rnd (1575 / 10000)) 365 365
     = Inr (rnd (157 / 100), rnd (1575 / 100), (rnd (843 / 100), rnd (1157 / 100)))"
proof -
  have "calculate_expected_move (Fin 10) (rnd (1575 / 10000)) 365 365
           = Inr (py_round_f (f_mul (f_mul (Fin 10) (rnd (1575 / 10000))) (Fin 1)) 2,
                  py_round_f (f_mul (f_mul (rnd (1575 / 10000)) (Fin 1)) (Fin 100)) 2,
                  (py_round_f (f_sub (Fin 10) (f_mul (f_mul (Fin 10) (rnd (1575 / 10000))) (Fin 1))) 2,
                   py_round_f (f_add (Fin 10) (f_mul (f_mul (Fin 10) (rnd (1575 / 10000))) (Fin 1))) 2))"
    by (rule calculate_expected_move_eval [OF int_truediv_365 math_sqrt_one])
  also have "\<dots> = Inr (rnd (157 / 100), rnd (1575 / 100), (rnd (843 / 100), rnd (1157 / 100)))"
    by (simp only: em_a_1 em_a_2 em_a_3 em_a_4 em_a_5 em_a_6 em_a_7 em_a_8 em_a_9 em_a_10 em_a_11)
  finally show ?thesis .
qed

lemma em_c_1: "rnd (100123 / 1000) = Fin (7045529773300253 / 70368744177664)"
  by (subst rnd_eval [where e = "6"]) (simp_all add: round_half_even_def power_int_minus)

lemma em_c_2: "rnd (3 / 10) = Fin (5404319552844595 / 18014398509481984)"
  by (subst rnd_eval [where e = "- 2"]) (simp_all add: round_half_even_def power_int_minus)

lemma em_c_3: "f_mul (Fin (7045529773300253 / 70368744177664)) (Fin (5404319552844595 / 18014398509481984)) = Fin (8454635727960303 / 281474976710656)"
  unfolding f_mul.simps
  by (subst rnd_eval [where e = "4"]) (simp_all add: round_half_even_def power_int_minus)

lemma em_c_4: "py_round_f (Fin (7045529773300253 / 70368744177664)) 2 = rnd (2503 / 25)"
  by (simp add: py_round_def round_half_even_def)

lemma em_c_5: "rnd (2503 / 25) = Fin (880664833383465 / 8796093022208)"
  by (subst rnd_eval [where e = "6"]) (simp_all add: round_half_even_def power_int_minus)

lemma is_float_100_123: "is_float (7045529773300253 / 70368744177664)"
  unfolding is_float_def
  by (subst rnd_eval [where e = "6"]) (simp_all add: round_half_even_def power_int_minus)

text \<open>
  C7, the claim as stated. For the price \<open>100.123\<close> and zero days the range is
  \<open>(100.12, 100.12)\<close>, not \<open>(P, P)\<close>: the bounds are rounded like every other output.
\<close>

theorem expected_move_zero_days_counterexample:
  "calculate_expected_move (rnd (100123 / 1000)) (rnd (3 / 10)) 0 365
     \<noteq> Inr (Fin 0, Fin 0, (rnd (100123 / 1000), rnd (100123 / 1000)))"
proof -
  have n: "(365::int) \<noteq> 0"
    by simp
  have "calculate_expected_move (Fin (7045529773300253 / 70368744177664)) (Fin (5404319552844595 / 18014398509481984)) 0 365
          = Inr (Fin 0, Fin 0, (py_round_f (Fin (7045529773300253 / 70368744177664)) 2, py_round_f (Fin (7045529773300253 / 70368744177664)) 2))"
    by (rule expected_move_zero_days [OF n is_float_100_123 em_c_3])
  also have "\<dots> = Inr (Fin 0, Fin 0, (Fin (880664833383465 / 8796093022208), Fin (880664833383465 / 8796093022208)))"
    by (simp only: em_c_1 em_c_2 em_c_3 em_c_4 em_c_5)
  finally show ?thesis
    by (simp add: em_c_1 em_c_2)
qed

lemma em_w_1: "f_mul (Fin (100)) (Fin (1 / 2)) = Fin (50)"
  unfolding f_mul.simps
  by (subst rnd_eval [where e = "5"]) (simp_all add: round_half_even_def power_int_minus)

lemma em_w_2: "f_mul (Fin (50)) (Fin (1)) = Fin (50)"
  unfolding f_mul.simps
  by (subst rnd_eval [where e = "5"]) (simp_all add: round_half_even_def power_int_minus)

lemma em_w_3: "f_mul (Fin (1 / 2)) (Fin (1)) = Fin (1 / 2)"
  unfolding f_mul.simps
  by (subst rnd_eval [where e = "- 1"]) (simp_all add: round_half_even_def power_int_minus)

lemma em_w_4: "f_mul (Fin (1 / 2)) (Fin (100)) = Fin (50)"
  unfolding f_mul.simps
  by (subst rnd_eval [where e = "5"]) (simp_all add: round_half_even_def power_int_minus)

lemma em_w_5: "f_sub (Fin (100)) (Fin (50)) = Fin (50)"
  unfolding f_sub_def f_neg.simps f_add.simps
  by (subst rnd_eval [where e = "5"]) (simp_all add: round_half_even_def power_int_minus)

lemma em_w_6: "f_add (Fin (100)) (Fin (50)) = Fin (150)"
  unfolding f_add.simps
  by (subst rnd_eval [where e = "7"]) (simp_all add: round_half_even_def power_int_minus)

lemma em_w_7: "py_round_f (Fin (50)) 2 = rnd (50)"
  by (simp add: py_round_def round_half_even_def)

lemma em_w_8: "py_round_f (Fin (150)) 2 = rnd (150)"
  by (simp add: py_round_def round_half_even_def)

lemma em_w_9: "rnd (50) = Fin (50)"
  by (subst rnd_eval [where e = "5"]) (simp_all add: round_half_even_def power_int_minus)

lemma em_w_10: "rnd (150) = Fin (150)"
  by (subst rnd_eval [where e = "7"]) (simp_all add: round_half_even_def power_int_minus)

lemma is_float_100: "is_float (100)"
  unfolding is_float_def
  by (subst rnd_eval [where e = "6"]) (simp_all add: round_half_even_def power_int_minus)
text \<open>
  C7, amended. For a float price \<open>P\<close> and an IV whose product with it is finite, and
  a non-zero annualization factor, zero days give a zero move and a range collapsed to
  the price rounded to two decimals, which is the price itself when it has at most two
  decimals. For a positive number of days and a positive annualization factor the
  dollar move is the float expression \<open>P * iv * sqrt(days / annualization_days)\<close>,
  and the dollar amount, the percent \<open>iv * sqrt(days / annualization_days) * 100\<close> and
  the bounds \<open>P - move\<close> and \<open>P + move\<close>, taken with the move before it is rounded,
  are each rounded to two decimals. The price \<open>10.0\<close> with the IV \<open>0.1575\<close> over 365 of
  365 days gives \<open>(1.57, 15.75, (8.43, 11.57))\<close>.
\<close>

theorem expected_move_rounded:
  "(ann \<noteq> 0 \<and> is_float p \<and> f_mul (Fin p) iv = Fin z \<longrightarrow>
      calculate_expected_move (Fin p) iv 0 ann
        = Inr (Fin 0, Fin 0, (py_round_f (Fin p) 2, py_round_f (Fin p) 2))
      \<and> (p * 100 = of_int k \<longrightarrow>
           calculate_expected_move (Fin p) iv 0 ann = Inr (Fin 0, Fin 0, (Fin p, Fin p))))
   \<and> (0 < days \<and> 0 < ann \<and> rnd (real_of_int days / real_of_int ann) = Fin q \<longrightarrow>
        calculate_expected_move P iv days ann
          = Inr (py_round_f (f_mul (f_mul P iv) (Fin (fl (sqrt q)))) 2,
                 py_round_f (f_mul (f_mul iv (Fin (fl (sqrt q)))) (Fin 100)) 2,
                 (py_round_f (f_sub P (f_mul (f_mul P iv) (Fin (fl (sqrt q))))) 2,
                  py_round_f (f_add P (f_mul (f_mul P iv) (Fin (fl (sqrt q))))) 2)))
   \<and> calculate_expected_move (Fin 10) (rnd (1575 / 10000)) 365 365
       = Inr (rnd (157 / 100), rnd (1575 / 100), (rnd (843 / 100), rnd (1157 / 100)))"
  using expected_move_zero_days [of ann p iv z] expected_move_zero_days_exact [of ann p iv z k]
    expected_move_positive_days [of days ann q P iv] expected_move_example
  by blast

theorem expected_move_rounded_witness:
  "calculate_expected_move (Fin 100) (Fin (1 / 2)) 0 365 = Inr (Fin 0, Fin 0, (Fin 100, Fin 100))
   \<and> calculate_expected_move (Fin 100) (Fin (1 / 2)) 365 365
       = Inr (Fin 50, Fin 50, (Fin 50, Fin 150))"
proof -
  have h: "(365::int) \<noteq> 0" "(0::int) < 365" "(100::real) * 100 = of_int 10000"
    "rnd (real_of_int 365 / real_of_int 365) = Fin 1" "fl (sqrt 1) = 1"
    by simp_all
  note t = expected_move_rounded [of 365 100 "Fin (1 / 2)" 50 10000 365 1 "Fin 100"]
  have a: "calculate_expected_move (Fin 100) (Fin (1 / 2)) 0 365
             = Inr (Fin 0, Fin 0, (Fin 100, Fin 100))"
    using t h is_float_100 em_w_1 by blast
  have "calculate_expected_move (Fin 100) (Fin (1 / 2)) 365 365
          = Inr (py_round_f (f_mul (f_mul (Fin 100) (Fin (1 / 2))) (Fin (fl (sqrt 1)))) 2,
                 py_round_f (f_mul (f_mul (Fin (1 / 2)) (Fin (fl (sqrt 1)))) (Fin 100)) 2,
                 (py_round_f (f_sub (Fin 100) (f_mul (f_mul (Fin 100) (Fin (1 / 2))) (Fin (fl (sqrt 1))))) 2,
                  py_round_f (f_add (Fin 100) (f_mul (f_mul (Fin 100) (Fin (1 / 2))) (Fin (fl (sqrt 1))))) 2))"
    using t h(2,4) by blast
  also have "\<dots> = Inr (Fin 50, Fin 50, (Fin 50, Fin 150))"
    unfolding h(5) by (simp only: em_w_1 em_w_2 em_w_3 em_w_4 em_w_5 em_w_6 em_w_7 em_w_8 em_w_9 em_w_10)
  finally show ?thesis
    using a by simp
qed

subsection \<open>Scoring a catalyst play\<close>

lemma f_mul_commute: "f_mul a b = f_mul b a"
  by (cases a; cases b) (simp_all add: mult.commute)

lemma time_score_spec: "time_score_of d = spec_time_score d"
  by (simp add: time_score_of_def spec_time_score_def mult.commute)

lemma move_score_spec: "move_score_of m = spec_move_score m"
  by (cases m) (simp_all add: move_score_of_def spec_move_score_def)

lemma composite_unfold:
  "composite_score (score_catalyst_play m r c e)
     = py_round_f
         (f_add (f_add (f_mul r (rnd (4 / 10)))
                       (f_mul (Fin (of_int (time_score_of (e - c)))) (rnd (35 / 100))))
                (f_mul (Fin (of_int (move_score_of m))) (rnd (25 / 100)))) 1"
  by (simp add: score_catalyst_play_def Let_def)

lemma recommendation_unfold:
  "recommendation (score_catalyst_play m r c e)
     = get_recommendation
         (f_add (f_add (f_mul r (rnd (4 / 10)))
                       (f_mul (Fin (of_int (time_score_of (e - c)))) (rnd (35 / 100))))
                (f_mul (Fin (of_int (move_score_of m))) (rnd (25 / 100)))) r"
  by (simp add: score_catalyst_play_def Let_def)

lemma composite_spec:
  "composite_score (score_catalyst_play m r c e)
     = spec_composite r (spec_time_score (e - c)) (spec_move_score m)"
  unfolding composite_unfold spec_composite_def time_score_spec move_score_spec
  by (simp only: f_mul_commute [of "rnd (4 / 10)"] f_mul_commute [of "rnd (35 / 100)"]
        f_mul_commute [of "rnd (25 / 100)"])

lemma sc_1: "rnd (4 / 10) = Fin (3602879701896397 / 9007199254740992)"
  by (subst rnd_eval [where e = "- 2"]) (simp_all add: round_half_even_def power_int_minus)

lemma sc_2: "rnd (35 / 100) = Fin (3152519739159347 / 9007199254740992)"
  by (subst rnd_eval [where e = "- 2"]) (simp_all add: round_half_even_def power_int_minus)

lemma sc_3: "rnd (25 / 100) = Fin (1 / 4)"
  by (subst rnd_eval [where e = "- 2"]) (simp_all add: round_half_even_def power_int_minus)

lemma sc_4: "f_mul (Fin (85)) (Fin (3602879701896397 / 9007199254740992)) = Fin (34)"
  unfolding f_mul.simps
  by (subst rnd_eval [where e = "5"]) (simp_all add: round_half_even_def power_int_minus)

lemma sc_5: "f_mul (Fin (100)) (Fin (3152519739159347 / 9007199254740992)) = Fin (35)"
  unfolding f_mul.simps
  by (subst rnd_eval [where e = "5"]) (simp_all add: round_half_even_def power_int_minus)

lemma sc_6: "f_mul (Fin (80)) (Fin (1 / 4)) = Fin (20)"
  unfolding f_mul.simps
  by (subst rnd_eval [where e = "4"]) (simp_all add: round_half_even_def power_int_minus)

lemma sc_7: "f_add (Fin (34)) (Fin (35)) = Fin (69)"
  unfolding f_add.simps
  by (subst rnd_eval [where e = "6"]) (simp_all add: round_half_even_def power_int_minus)

lemma sc_8: "f_add (Fin (69)) (Fin (20)) = Fin (89)"
  unfolding f_add.simps
  by (subst rnd_eval [where e = "6"]) (simp_all add: round_half_even_def power_int_minus)

lemma sc_9: "py_round_f (Fin (89)) 1 = rnd (89)"
  by (simp add: py_round_def round_half_even_def)

lemma sc_10: "rnd (89) = Fin (89)"
  by (subst rnd_eval [where e = "6"]) (simp_all add: round_half_even_def power_int_minus)

lemma sc_11: "f_mul (Fin (72)) (Fin (3602879701896397 / 9007199254740992)) = Fin (8106479329266893 / 281474976710656)"
  unfolding f_mul.simps
  by (subst rnd_eval [where e = "4"]) (simp_all add: round_half_even_def power_int_minus)

lemma sc_12: "f_mul (Fin (75)) (Fin (3152519739159347 / 9007199254740992)) = Fin (105 / 4)"
  unfolding f_mul.simps
  by (subst rnd_eval [where e = "4"]) (simp_all add: round_half_even_def power_int_minus)

lemma sc_13: "f_mul (Fin (50)) (Fin (1 / 4)) = Fin (25 / 2)"
  unfolding f_mul.simps
  by (subst rnd_eval [where e = "3"]) (simp_all add: round_half_even_def power_int_minus)

lemma sc_14: "f_add (Fin (8106479329266893 / 281474976710656)) (Fin (105 / 4)) = Fin (3873799366980403 / 70368744177664)"
  unfolding f_add.simps
  by (subst rnd_eval [where e = "5"]) (simp_all add: round_half_even_def power_int_minus)

lemma sc_15: "f_add (Fin (3873799366980403 / 70368744177664)) (Fin (25 / 2)) = Fin (4753408669201203 / 70368744177664)"
  unfolding f_add.simps
  by (subst rnd_eval [where e = "6"]) (simp_all add: round_half_even_def power_int_minus)

lemma sc_16: "py_round_f (Fin (4753408669201203 / 70368744177664)) 1 = rnd (675 / 10)"
  by (simp add: py_round_def round_half_even_def)

lemma sc_17: "f_mul (Fin (1 / 8)) (Fin (3602879701896397 / 9007199254740992)) = Fin (3602879701896397 / 72057594037927936)"
  unfolding f_mul.simps
  by (subst rnd_eval [where e = "- 5"]) (simp_all add: round_half_even_def power_int_minus)

lemma sc_18: "f_add (Fin (3602879701896397 / 72057594037927936)) (Fin (35)) = Fin (2466424483427123 / 70368744177664)"
  unfolding f_add.simps
  by (subst rnd_eval [where e = "5"]) (simp_all add: round_half_even_def power_int_minus)

lemma sc_19: "f_add (Fin (2466424483427123 / 70368744177664)) (Fin (25 / 2)) = Fin (3346033785647923 / 70368744177664)"
  unfolding f_add.simps
  by (subst rnd_eval [where e = "5"]) (simp_all add: round_half_even_def power_int_minus)

lemma sc_20: "py_round_f (Fin (3346033785647923 / 70368744177664)) 1 = rnd (475 / 10)"
  by (simp add: py_round_def round_half_even_def)

lemma score_example_scores:
  "time_score_of (7 - 5) = 100" "move_score_of (Fin 8) = 80"
  "time_score_of (8 - 0) = 75" "move_score_of (Fin 3) = 50"
  "time_score_of (0 - 0) = 100" "move_score_of (Fin 2) = 50"
  by (simp_all add: time_score_of_def move_score_of_def)

text \<open>
  The products and sums of the composite score are float operations. With an IV rank
  of 72, a time score of 75 and a move score of 50 the sum is \<open>67.55\<close> in exact
  arithmetic; the floats give a number just below it, and the score is \<open>67.5\<close>.
  Likewise an IV rank of \<open>0.125\<close> with the scores 100 and 50 gives \<open>47.5\<close>.
\<close>

lemma score_composite_binary_examples:
  "composite_score (score_catalyst_play (Fin 3) (Fin 72) 0 8) = rnd (675 / 10)"
  "composite_score (score_catalyst_play (Fin 2) (Fin (1 / 8)) 0 0) = rnd (475 / 10)"
  unfolding composite_unfold score_example_scores
  by (simp_all only: of_int_numeral sc_1 sc_2 sc_3 sc_4 sc_5 sc_6 sc_7 sc_8 sc_9 sc_10 sc_11 sc_12 sc_13 sc_14 sc_15 sc_16 sc_17 sc_18 sc_19 sc_20)

text \<open>
  C3. For all inputs \<open>score_catalyst_play\<close> computes the time-alignment score by the
  piecewise rule on \<open>d = days_to_expiration - days_to_catalyst\<close> (\<open>d < 0\<close> gives
  \<open>max(0, 50 + 10d)\<close>, \<open>0 \<le> d \<le> 3\<close> gives 100, \<open>4 \<le> d \<le> 7\<close> gives 80, otherwise
  \<open>max(30, 80 - 5(d - 7))\<close>), the expected-move score by the right-open bins, and the
  composite score as the float expression
  \<open>0.4 * iv_rank + 0.35 * time_score + 0.25 * move_score\<close> rounded to one decimal. The
  inputs \<open>(8.0, 85.0, 5, 7)\<close> give a composite score of at least 80 and the
  sell-premium recommendation; expiration in 5 days with the catalyst in 10 gives a
  time-alignment score below 50.
\<close>

theorem score_catalyst_play_rule:
  "time_alignment_score (score_catalyst_play m r c e) = spec_time_score (e - c)
   \<and> expected_move_score (score_catalyst_play m r c e) = spec_move_score m
   \<and> composite_score (score_catalyst_play m r c e)
       = spec_composite r (spec_time_score (e - c)) (spec_move_score m)
   \<and> f_ge (composite_score (score_catalyst_play (Fin 8) (Fin 85) 5 7)) 80
   \<and> recommendation (score_catalyst_play (Fin 8) (Fin 85) 5 7)
       = ''Strong sell premium candidate (high IV, good timing)''
   \<and> time_alignment_score (score_catalyst_play (Fin 8) (Fin 85) 10 5) < 50"
proof -
  have t: "time_alignment_score (score_catalyst_play m r c e) = spec_time_score (e - c)"
    by (simp add: score_catalyst_play_def Let_def time_score_spec)
  have mv: "expected_move_score (score_catalyst_play m r c e) = spec_move_score m"
    by (simp add: score_catalyst_play_def Let_def move_score_spec)
  have "composite_score (score_catalyst_play (Fin 8) (Fin 85) 5 7) = Fin 89"
    unfolding composite_unfold score_example_scores
    by (simp only: of_int_numeral sc_1 sc_2 sc_3 sc_4 sc_5 sc_6 sc_7 sc_8 sc_9 sc_10 sc_11 sc_12 sc_13 sc_14 sc_15 sc_16 sc_17 sc_18 sc_19 sc_20)
  then have comp: "f_ge (composite_score (score_catalyst_play (Fin 8) (Fin 85) 5 7)) 80"
    by simp
  have "recommendation (score_catalyst_play (Fin 8) (Fin 85) 5 7)
          = get_recommendation (Fin 89) (Fin 85)"
    unfolding recommendation_unfold score_example_scores
    by (simp only: of_int_numeral sc_1 sc_2 sc_3 sc_4 sc_5 sc_6 sc_7 sc_8 sc_9 sc_10 sc_11 sc_12 sc_13 sc_14 sc_15 sc_16 sc_17 sc_18 sc_19 sc_20)
  then have rec: "recommendation (score_catalyst_play (Fin 8) (Fin 85) 5 7)
       = ''Strong sell premium candidate (high IV, good timing)''"
    by (simp add: get_recommendation_def)
  have before: "time_alignment_score (score_catalyst_play (Fin 8) (Fin 85) 10 5) = 0"
    by (simp add: score_catalyst_play_def Let_def time_score_of_def)
  show ?thesis
    using t mv composite_spec [of m r c e] comp rec before by simp
qed


end
